theory Spec2Isabelle
  imports Complex_Main
begin

section \<open>Song recommendation engine (recommend\_songs.py)\<close>

text \<open>
  A shallow embedding of the recommendation module: corpus preprocessing
  (\<open>preprocess_songs\<close>), the embedding step (\<open>get_song_embeddings\<close>), the ranking and
  emission of recommendations (\<open>get_recommendations_fast\<close>) and the request handling of
  \<open>main\<close>.

  Conventions of the embedding.
  \<^item> A Python \<open>str\<close> is a \<open>string\<close>; a \<open>char\<close> stands for one code point below 256.
  \<^item> A song is a dictionary of which only the keys \<open>'filename'\<close> and \<open>'lyrics'\<close> are read;
    an absent key is \<open>None\<close>.
  \<^item> Similarity scores are real numbers: the float32 arithmetic of the libraries is
    idealised.
  \<^item> The sentence-transformer model is a function from one text to its vector; encoding a
    batch encodes each text, in order. A model that failed to load is \<open>None\<close>.
  \<^item> \<open>np.argsort\<close> is an argument of the operations that rank: any sort of the indices
    by ascending value, with no promise on the order of equal values.
\<close>

subsection \<open>Data model\<close>

record song =
  filename :: "string option"
  lyrics :: "string list option"

record recommendation =
  rec_filename :: string
  rec_lyrics :: "string list"
  similarity_score :: real

type_synonym vec = "real list"

type_synonym encoder = "string \<Rightarrow> vec"

text \<open>\<open>song.get('lyrics', [])\<close> and \<open>song.get('filename', 'Unknown')\<close>.\<close>

definition get_lyrics :: "song \<Rightarrow> string list" where
  "get_lyrics s = (case lyrics s of None \<Rightarrow> [] | Some ls \<Rightarrow> ls)"

definition get_filename :: "song \<Rightarrow> string" where
  "get_filename s = (case filename s of None \<Rightarrow> ''Unknown'' | Some f \<Rightarrow> f)"

subsection \<open>Strings\<close>

text \<open>
  \<open>str.isspace\<close> on the code points below 256: tab to carriage return, the four
  separators 28 to 31, the space, NEL (133) and the no-break space (160).
\<close>

definition isspace :: "char \<Rightarrow> bool" where
  "isspace c = (of_char c \<in> {9, 10, 11, 12, 13, 28, 29, 30, 31, 32, 133, 160 :: nat})"

text \<open>\<open>s.strip()\<close>: whitespace removed at both ends.\<close>

definition strip :: "string \<Rightarrow> string" where
  "strip s = rev (dropWhile isspace (rev (dropWhile isspace s)))"

text \<open>\<open>" ".join(xs)\<close>.\<close>

fun join_space :: "string list \<Rightarrow> string" where
  "join_space [] = []"
| "join_space [x] = x"
| "join_space (x # y # ys) = x @ '' '' @ join_space (y # ys)"

subsection \<open>Preprocessing\<close>

text \<open>
  The loop of \<open>preprocess_songs\<close>, with the two lists it appends to as accumulators.
  The \<open>st.cache_data\<close> decorator memoises a pure function and is left out.
\<close>

fun preprocess_loop :: "song list \<Rightarrow> string list \<Rightarrow> string list \<Rightarrow> string list \<times> string list" where
  "preprocess_loop [] song_texts song_names = (song_texts, song_names)"
| "preprocess_loop (s # songs) song_texts song_names =
     (let lyrics_text = join_space (get_lyrics s)
      in if strip lyrics_text \<noteq> []
         then preprocess_loop songs (song_texts @ [lyrics_text]) (song_names @ [get_filename s])
         else preprocess_loop songs song_texts song_names)"

definition preprocess_songs :: "song list \<Rightarrow> string list \<times> string list" where
  "preprocess_songs songs = preprocess_loop songs [] []"

subsection \<open>The embedding step\<close>

text \<open>\<open>_model.encode(texts, ...)\<close>: one vector for each text, in order.\<close>

definition encode :: "encoder \<Rightarrow> string list \<Rightarrow> vec list" where
  "encode m texts = map m texts"

text \<open>
  The body of \<open>get_song_embeddings\<close>. \<open>not _model or not song_texts\<close> returns the pair
  \<open>(None, None)\<close>; otherwise the batch is encoded and returned with the texts.
\<close>

definition get_song_embeddings ::
  "string list \<Rightarrow> encoder option \<Rightarrow> vec list option \<times> string list option" where
  "get_song_embeddings song_texts model =
     (case model of
        None \<Rightarrow> (None, None)
      | Some m \<Rightarrow>
          if song_texts = [] then (None, None)
          else (Some (encode m song_texts), Some song_texts))"

subsection \<open>Cosine similarity\<close>

text \<open>
  \<open>sklearn.metrics.pairwise.cosine_similarity(X, Y)\<close> is library code outside the
  repository; the definitions follow the library: every row is divided by its Euclidean
  norm, a norm of zero being replaced by one first, and the result is the matrix of dot
  products of the normalised rows of \<open>X\<close> with those of \<open>Y\<close>.
\<close>

definition dot :: "vec \<Rightarrow> vec \<Rightarrow> real" where
  "dot x y = sum_list (map2 (*) x y)"

definition row_norm :: "vec \<Rightarrow> real" where
  "row_norm x = sqrt (sum_list (map (\<lambda>v. v * v) x))"

definition handle_zeros_in_scale :: "real \<Rightarrow> real" where
  "handle_zeros_in_scale n = (if n = 0 then 1 else n)"

definition normalize_row :: "vec \<Rightarrow> vec" where
  "normalize_row x = map (\<lambda>v. v / handle_zeros_in_scale (row_norm x)) x"

definition cosine_similarity :: "vec list \<Rightarrow> vec list \<Rightarrow> real list list" where
  "cosine_similarity X Y = map (\<lambda>x. map (\<lambda>y. dot (normalize_row x) (normalize_row y)) Y) X"

subsection \<open>Ranking\<close>

text \<open>
  \<open>np.argsort(a)\<close> is library code outside the repository, called with its default
  kind, which is documented as not stable: it returns the indices of \<open>a\<close>, each once, in
  an order along which the values do not descend, and promises nothing about the order
  of indices of equal value. The operations below therefore take the sort as their first
  argument, and what is proved of them is proved for every sort that meets this
  description.
\<close>

type_synonym sorter = "real list \<Rightarrow> nat list"

definition is_argsort :: "sorter \<Rightarrow> bool" where
  "is_argsort argsort =
     (\<forall>a. distinct (argsort a) \<and> set (argsort a) = {0..<length a}
           \<and> sorted (map (\<lambda>i. a ! i) (argsort a)))"

text \<open>
  One such sort, by insertion, on which the worked examples are run. It happens to keep
  equal values in index order; nothing proved for every sort relies on that.
\<close>

definition insertion_argsort :: sorter where
  "insertion_argsort a = sort_key (\<lambda>i. a ! i) [0..<length a]"

text \<open>
  The slice \<open>xs[:k]\<close> for a Python integer \<open>k\<close>: the first \<open>k\<close> elements when
  \<open>k \<ge> 0\<close>, all but the last \<open>-k\<close> elements when \<open>k < 0\<close>.
\<close>

definition slice_to :: "int \<Rightarrow> 'a list \<Rightarrow> 'a list" where
  "slice_to k xs = (if 0 \<le> k then take (nat k) xs else take (length xs - nat (- k)) xs)"

text \<open>\<open>np.argsort(similarities)[::-1][:top_k]\<close>.\<close>

definition top_indices_of :: "sorter \<Rightarrow> real list \<Rightarrow> int \<Rightarrow> nat list" where
  "top_indices_of argsort similarities top_k = slice_to top_k (rev (argsort similarities))"

text \<open>
  \<open>round(x, 3)\<close> on a numpy float: scale by 1000, round to the nearest integer with
  ties to the even one, scale back.
\<close>

definition rint :: "real \<Rightarrow> int" where
  "rint x =
     (let f = \<lfloor>x\<rfloor>; d = x - of_int f
      in if d < 1 / 2 then f
         else if 1 / 2 < d then f + 1
         else if even f then f else f + 1)"

definition round3 :: "real \<Rightarrow> real" where
  "round3 x = of_int (rint (x * 1000)) / 1000"

subsection \<open>Emitting the recommendations\<close>

text \<open>
  The loop over \<open>top_indices\<close>. The original song is looked up by name:
  \<open>next((s for s in songs if s.get('filename') == song_name), None)\<close> is the first
  song of the corpus whose \<open>'filename'\<close> is present and equal to the name. A song found
  this way has that key, so as a dictionary it is non-empty and \<open>if song_data:\<close> holds.
\<close>

fun emit_loop ::
  "nat list \<Rightarrow> string list \<Rightarrow> real list \<Rightarrow> song list \<Rightarrow> recommendation list
     \<Rightarrow> recommendation list" where
  "emit_loop [] song_names similarities songs recommendations = recommendations"
| "emit_loop (idx # top_indices) song_names similarities songs recommendations =
     (let song_name = song_names ! idx;
          score = similarities ! idx
      in case find (\<lambda>s. filename s = Some song_name) songs of
           None \<Rightarrow> emit_loop top_indices song_names similarities songs recommendations
         | Some song_data \<Rightarrow>
             emit_loop top_indices song_names similarities songs
               (recommendations @
                  [\<lparr>rec_filename = song_name,
                    rec_lyrics = get_lyrics song_data,
                    similarity_score = round3 score\<rparr>]))"

text \<open>
  What one turn of the loop appends for the index \<open>idx\<close>: nothing when no song of the
  corpus carries the name, else one recommendation (used to describe the loop's result).
\<close>

definition emitted :: "string list \<Rightarrow> real list \<Rightarrow> song list \<Rightarrow> nat \<Rightarrow> recommendation option" where
  "emitted song_names similarities songs idx =
     map_option
       (\<lambda>song_data. \<lparr>rec_filename = song_names ! idx,
                     rec_lyrics = get_lyrics song_data,
                     similarity_score = round3 (similarities ! idx)\<rparr>)
       (find (\<lambda>s. filename s = Some (song_names ! idx)) songs)"

subsection \<open>The recommendation operation\<close>

text \<open>
  The scores of one request: the query is encoded as a batch of one text, and row 0 of
  the similarity matrix is taken.
\<close>

definition similarities_of :: "encoder \<Rightarrow> string \<Rightarrow> vec list \<Rightarrow> real list" where
  "similarities_of m sermon_text song_embeddings =
     cosine_similarity (encode m [sermon_text]) song_embeddings ! 0"

text \<open>
  \<open>get_recommendations_fast\<close>, with the cache of \<open>get_song_embeddings\<close> transparent
  (the cached variant follows below).
\<close>

definition get_recommendations_fast ::
  "sorter \<Rightarrow> string \<Rightarrow> song list \<Rightarrow> encoder option \<Rightarrow> int \<Rightarrow> recommendation list" where
  "get_recommendations_fast argsort sermon_text songs model top_k =
     (case model of
        None \<Rightarrow> []
      | Some m \<Rightarrow>
          if songs = [] then []
          else
            let (song_texts, song_names) = preprocess_songs songs
            in if song_texts = [] then []
               else
                 (case fst (get_song_embeddings song_texts model) of
                    None \<Rightarrow> []
                  | Some song_embeddings \<Rightarrow>
                      let similarities = similarities_of m sermon_text song_embeddings;
                          top_indices = top_indices_of argsort similarities top_k
                      in emit_loop top_indices song_names similarities songs []))"

subsection \<open>The embedding cache and the calls of the provider\<close>

text \<open>
  \<open>st.cache_resource\<close> memoises \<open>get_song_embeddings\<close> for the life of the process.
  The key is the argument \<open>song_texts\<close>; the parameter \<open>_model\<close> starts with an
  underscore and is not part of the key. The state holds this cache together with a
  record of every call of \<open>_model.encode\<close>: the batches encoded for a corpus and the
  query texts encoded for a request.
\<close>

record app_state =
  embeddings_cache :: "string list \<rightharpoonup> vec list option \<times> string list option"
  corpus_encodes :: "string list list"
  query_encodes :: "string list"

definition fresh_state :: app_state where
  "fresh_state = \<lparr>embeddings_cache = Map.empty, corpus_encodes = [], query_encodes = []\<rparr>"

text \<open>The body of \<open>get_song_embeddings\<close>, its call of the provider recorded.\<close>

definition get_song_embeddings_run ::
  "string list \<Rightarrow> encoder option \<Rightarrow> app_state
     \<Rightarrow> (vec list option \<times> string list option) \<times> app_state" where
  "get_song_embeddings_run song_texts model st =
     (case model of
        None \<Rightarrow> ((None, None), st)
      | Some m \<Rightarrow>
          if song_texts = [] then ((None, None), st)
          else ((Some (encode m song_texts), Some song_texts),
                st\<lparr>corpus_encodes := corpus_encodes st @ [song_texts]\<rparr>))"

text \<open>The decorated function: a hit returns the stored value, a miss runs the body and stores.\<close>

definition get_song_embeddings_cached ::
  "string list \<Rightarrow> encoder option \<Rightarrow> app_state
     \<Rightarrow> (vec list option \<times> string list option) \<times> app_state" where
  "get_song_embeddings_cached song_texts model st =
     (case embeddings_cache st song_texts of
        Some r \<Rightarrow> (r, st)
      | None \<Rightarrow>
          let (r, st') = get_song_embeddings_run song_texts model st
          in (r, st'\<lparr>embeddings_cache := (embeddings_cache st')(song_texts \<mapsto> r)\<rparr>))"

text \<open>
  \<open>get_recommendations_fast\<close> on the state. A stored entry whose embeddings are fewer or
  more than the names would make \<open>song_names[idx]\<close> fail; the entries this module stores
  have one embedding for each name (\<open>cache_coherent\<close> below).
\<close>

definition get_recommendations_fast_st ::
  "sorter \<Rightarrow> string \<Rightarrow> song list \<Rightarrow> encoder option \<Rightarrow> int \<Rightarrow> app_state
     \<Rightarrow> recommendation list \<times> app_state" where
  "get_recommendations_fast_st argsort sermon_text songs model top_k st =
     (case model of
        None \<Rightarrow> ([], st)
      | Some m \<Rightarrow>
          if songs = [] then ([], st)
          else
            let (song_texts, song_names) = preprocess_songs songs
            in if song_texts = [] then ([], st)
               else
                 let (r, st1) = get_song_embeddings_cached song_texts model st
                 in (case fst r of
                       None \<Rightarrow> ([], st1)
                     | Some song_embeddings \<Rightarrow>
                         let st2 = st1\<lparr>query_encodes := query_encodes st1 @ [sermon_text]\<rparr>;
                             similarities = similarities_of m sermon_text song_embeddings;
                             top_indices = top_indices_of argsort similarities top_k
                         in (emit_loop top_indices song_names similarities songs [], st2)))"

text \<open>Every stored entry is what the body returns for its key under the model \<open>m\<close>.\<close>

definition cache_coherent :: "encoder \<Rightarrow> app_state \<Rightarrow> bool" where
  "cache_coherent m st =
     (\<forall>song_texts r. embeddings_cache st song_texts = Some r
        \<longrightarrow> r = get_song_embeddings song_texts (Some m))"

text \<open>
  No corpus batch has been encoded twice, and every batch that was encoded is a key of
  the cache.
\<close>

definition encodes_once :: "app_state \<Rightarrow> bool" where
  "encodes_once st =
     (distinct (corpus_encodes st) \<and> set (corpus_encodes st) \<subseteq> dom (embeddings_cache st))"

text \<open>A sequence of requests served one after the other by one process.\<close>

fun run_requests ::
  "sorter \<Rightarrow> (string \<times> song list \<times> encoder option \<times> int) list \<Rightarrow> app_state
     \<Rightarrow> app_state" where
  "run_requests argsort [] st = st"
| "run_requests argsort ((sermon_text, songs, model, top_k) # rs) st =
     run_requests argsort rs
       (snd (get_recommendations_fast_st argsort sermon_text songs model top_k st))"

subsection \<open>The application\<close>

text \<open>
  One run of \<open>main\<close>. The results of \<open>load_songs_data\<close> (the empty list when the file
  cannot be read) and of \<open>initialize_model\<close> (\<open>None\<close> when the model cannot be
  loaded), the state of the button and the content of the text area are inputs; what is
  shown to the user is the outcome.
\<close>

datatype outcome =
  Load_error
| Idle
| Empty_query_warning
| No_recommendations_error
| Shown "recommendation list"

definition main ::
  "sorter \<Rightarrow> song list \<Rightarrow> encoder option \<Rightarrow> bool \<Rightarrow> string \<Rightarrow> app_state
     \<Rightarrow> outcome \<times> app_state" where
  "main argsort songs_data model clicked sermon_text st =
     (if songs_data = [] \<or> model = None then (Load_error, st)
      else
        let (song_texts, song_names) = preprocess_songs songs_data;
            (r, st1) = get_song_embeddings_cached song_texts model st
        in if clicked
           then
             if sermon_text = [] \<or> strip sermon_text = [] then (Empty_query_warning, st1)
             else
               let (recommendations, st2) =
                     get_recommendations_fast_st argsort (strip sermon_text) songs_data model 5
                       st1
               in if recommendations = [] then (No_recommendations_error, st2)
                  else (Shown recommendations, st2)
           else (Idle, st1))"

subsection \<open>Encoders for the worked examples\<close>

text \<open>
  A model object whose \<open>encode\<close> maps the empty text to the zero vector, a text that
  starts with \<open>g\<close> to the first unit vector and any other text to the second.
\<close>

definition axis_encoder :: encoder where
  "axis_encoder s = (if s = [] then [0, 0] else if hd s = CHR ''g'' then [1, 0] else [0, 1])"

section \<open>Properties of preprocessing\<close>

lemma preprocess_loop_filter:
  "preprocess_loop songs ts ns =
     (ts @ map (\<lambda>s. join_space (get_lyrics s))
             (filter (\<lambda>s. strip (join_space (get_lyrics s)) \<noteq> []) songs),
      ns @ map get_filename
             (filter (\<lambda>s. strip (join_space (get_lyrics s)) \<noteq> []) songs))"
  by (induction songs arbitrary: ts ns) (simp_all add: Let_def)

lemma preprocess_songs_filter:
  "preprocess_songs songs =
     (map (\<lambda>s. join_space (get_lyrics s))
          (filter (\<lambda>s. strip (join_space (get_lyrics s)) \<noteq> []) songs),
      map get_filename
          (filter (\<lambda>s. strip (join_space (get_lyrics s)) \<noteq> []) songs))"
  by (simp add: preprocess_songs_def preprocess_loop_filter)

lemma preprocess_songs_lengths:
  "length (fst (preprocess_songs songs)) = length (snd (preprocess_songs songs))"
  by (simp add: preprocess_songs_filter)

text \<open>
  C5. Preprocessing is a function of the corpus alone. It joins the lyrics lines of each
  record with single spaces, keeps exactly the records whose joined text is non-empty
  after trimming, keeps them in their input order, and returns a text list and a name
  list of equal length, position by position for the same record.
\<close>

theorem preprocess_songs_spec:
  "preprocess_songs songs =
     (map (\<lambda>s. join_space (get_lyrics s))
          (filter (\<lambda>s. strip (join_space (get_lyrics s)) \<noteq> []) songs),
      map get_filename
          (filter (\<lambda>s. strip (join_space (get_lyrics s)) \<noteq> []) songs))
   \<and> length (fst (preprocess_songs songs)) = length (snd (preprocess_songs songs))"
  by (simp add: preprocess_songs_filter)

theorem preprocess_songs_spec_witness:
  "preprocess_songs
     [\<lparr>filename = Some ''song1'', lyrics = Some [''grace'', ''amazing'']\<rparr>,
      \<lparr>filename = Some ''song2'', lyrics = Some [''  '', '' '']\<rparr>,
      \<lparr>filename = Some ''song3'', lyrics = Some []\<rparr>,
      \<lparr>filename = Some ''song4'', lyrics = Some [''joy'', ''peace'']\<rparr>]
   = ([''grace amazing'', ''joy peace''], [''song1'', ''song4''])"
  using preprocess_songs_spec
    [of "[\<lparr>filename = Some ''song1'', lyrics = Some [''grace'', ''amazing'']\<rparr>,
          \<lparr>filename = Some ''song2'', lyrics = Some [''  '', '' '']\<rparr>,
          \<lparr>filename = Some ''song3'', lyrics = Some []\<rparr>,
          \<lparr>filename = Some ''song4'', lyrics = Some [''joy'', ''peace'']\<rparr>]"]
  by (simp add: get_lyrics_def get_filename_def strip_def isspace_def)

section \<open>Properties of ranking and emission\<close>

lemma emit_loop_map_filter:
  "emit_loop idxs names sims songs recs = recs @ List.map_filter (emitted names sims songs) idxs"
proof (induction idxs arbitrary: recs)
  case Nil
  show ?case by simp
next
  case (Cons idx idxs)
  show ?case
    by (cases "find (\<lambda>s. filename s = Some (names ! idx)) songs")
       (simp_all add: Cons.IH emitted_def)
qed

lemma length_emit_loop: "length (emit_loop idxs names sims songs []) \<le> length idxs"
  by (simp add: emit_loop_map_filter List.map_filter_def)

lemma rint_mono: "x \<le> y \<Longrightarrow> rint x \<le> rint y"
proof -
  assume xy: "x \<le> y"
  have lo: "\<And>z. \<lfloor>z\<rfloor> \<le> rint z" by (simp add: rint_def Let_def)
  have hi: "\<And>z. rint z \<le> \<lfloor>z\<rfloor> + 1" by (simp add: rint_def Let_def)
  from xy have fl: "\<lfloor>x\<rfloor> \<le> \<lfloor>y\<rfloor>" by (rule floor_mono)
  show ?thesis
  proof (cases "\<lfloor>x\<rfloor> = \<lfloor>y\<rfloor>")
    case True
    with xy show ?thesis by (auto simp add: rint_def Let_def)
  next
    case False
    with fl have "\<lfloor>x\<rfloor> + 1 \<le> \<lfloor>y\<rfloor>" by simp
    with hi [of x] lo [of y] show ?thesis by linarith
  qed
qed

lemma round3_mono: "x \<le> y \<Longrightarrow> round3 x \<le> round3 y"
  by (simp add: round3_def rint_mono divide_right_mono)

lemma is_argsort_insertion: "is_argsort insertion_argsort"
  by (simp add: is_argsort_def insertion_argsort_def sorted_sort_key)

lemma set_argsort: "is_argsort srt \<Longrightarrow> set (srt a) = {0..<length a}"
  by (simp add: is_argsort_def)

lemma distinct_argsort: "is_argsort srt \<Longrightarrow> distinct (srt a)"
  by (simp add: is_argsort_def)

lemma length_argsort:
  assumes "is_argsort srt"
  shows "length (srt a) = length a"
proof -
  have "length (srt a) = card (set (srt a))"
    using distinct_argsort [OF assms] by (simp add: distinct_card)
  then show ?thesis by (simp add: set_argsort [OF assms])
qed

lemma sorted_argsort: "is_argsort srt \<Longrightarrow> sorted_wrt (\<lambda>i j. a ! i \<le> a ! j) (srt a)"
  by (simp add: is_argsort_def sorted_map)

lemma sorted_wrt_slice_to: "sorted_wrt P xs \<Longrightarrow> sorted_wrt P (slice_to k xs)"
  by (simp add: slice_to_def)

lemma set_slice_to: "set (slice_to k xs) \<subseteq> set xs"
  by (auto simp add: slice_to_def dest: in_set_takeD)

lemma length_slice_to:
  "length (slice_to k xs) = (if 0 \<le> k then min (nat k) (length xs) else length xs - nat (- k))"
  by (simp add: slice_to_def min.commute)

lemma top_indices_descending:
  assumes "is_argsort srt"
  shows "sorted_wrt (\<lambda>i j. sims ! j \<le> sims ! i) (top_indices_of srt sims k)"
  unfolding top_indices_of_def
  by (rule sorted_wrt_slice_to) (simp add: sorted_wrt_rev sorted_argsort [OF assms])

lemma top_indices_in_range:
  assumes "is_argsort srt" and "i \<in> set (top_indices_of srt sims k)"
  shows "i < length sims"
  using set_slice_to [of k "rev (srt sims)"] assms(2)
  by (auto simp add: top_indices_of_def set_argsort [OF assms(1)])

lemma length_top_indices:
  assumes "is_argsort srt"
  shows "length (top_indices_of srt sims k) =
     (if 0 \<le> k then min (nat k) (length sims) else length sims - nat (- k))"
  by (simp add: top_indices_of_def length_slice_to length_argsort [OF assms])

lemma length_similarities_of: "length (similarities_of m q embs) = length embs"
  by (simp add: similarities_of_def cosine_similarity_def encode_def)

lemma emit_loop_descending:
  assumes "sorted_wrt (\<lambda>i j. sims ! j \<le> sims ! i) idxs"
  shows "sorted_wrt (\<lambda>a b. similarity_score b \<le> similarity_score a)
           (emit_loop idxs names sims songs [])"
proof -
  let ?e = "emitted names sims songs"
  have sc: "\<And>i. ?e i \<noteq> None \<Longrightarrow> similarity_score (the (?e i)) = round3 (sims ! i)"
    by (auto simp add: emitted_def)
  have "sorted_wrt (\<lambda>i j. round3 (sims ! j) \<le> round3 (sims ! i)) idxs"
    by (rule sorted_wrt_mono_rel [OF _ assms]) (simp add: round3_mono)
  then have "sorted_wrt (\<lambda>i j. round3 (sims ! j) \<le> round3 (sims ! i))
               (filter (\<lambda>i. ?e i \<noteq> None) idxs)"
    by (rule sorted_wrt_filter)
  then have "sorted_wrt (\<lambda>i j. similarity_score (the (?e j)) \<le> similarity_score (the (?e i)))
               (filter (\<lambda>i. ?e i \<noteq> None) idxs)"
    by (rule sorted_wrt_mono_rel [rotated]) (simp add: sc)
  then show ?thesis
    by (simp add: emit_loop_map_filter List.map_filter_def sorted_wrt_map comp_def)
qed

lemma sum_squares_zero: "sum_list (map (\<lambda>v. v * v) x) = 0 \<Longrightarrow> \<forall>v \<in> set x. v = (0::real)"
proof (induction x)
  case Nil
  show ?case by simp
next
  case (Cons a x)
  have nn: "0 \<le> sum_list (map (\<lambda>v. v * v) x)"
    by (rule sum_list_nonneg) auto
  from Cons.prems have "a * a + sum_list (map (\<lambda>v. v * v) x) = 0" by simp
  with nn have "a * a = 0" and "sum_list (map (\<lambda>v. v * v) x) = 0"
    using zero_le_square [of a] by linarith+
  with Cons.IH show ?case by simp
qed

lemma row_norm_zero: "row_norm x = 0 \<Longrightarrow> \<forall>v \<in> set x. v = 0"
  by (rule sum_squares_zero) (simp add: row_norm_def)

lemma normalize_row_zero: "row_norm x = 0 \<Longrightarrow> \<forall>v \<in> set (normalize_row x). v = 0"
  using row_norm_zero [of x] by (simp add: normalize_row_def)

lemma dot_zero_left: "\<forall>v \<in> set x. v = 0 \<Longrightarrow> dot x y = 0"
proof (induction x arbitrary: y)
  case Nil
  show ?case by (simp add: dot_def)
next
  case (Cons a x)
  then have "dot x (tl y) = 0" by simp
  with Cons.prems show ?case by (cases y) (simp_all add: dot_def)
qed

lemma dot_zero_right: "\<forall>v \<in> set y. v = 0 \<Longrightarrow> dot x y = 0"
proof (induction y arbitrary: x)
  case Nil
  show ?case by (simp add: dot_def)
next
  case (Cons a y)
  then have "dot (tl x) y = 0" by simp
  with Cons.prems show ?case by (cases x) (simp_all add: dot_def)
qed

lemma nth_similarities_of:
  "i < length embs \<Longrightarrow>
     similarities_of m q embs ! i = dot (normalize_row (m q)) (normalize_row (embs ! i))"
  by (simp add: similarities_of_def cosine_similarity_def encode_def)

lemma zero_norm_score:
  assumes "i < length embs" and "row_norm (m q) = 0 \<or> row_norm (embs ! i) = 0"
  shows "similarities_of m q embs ! i = 0"
  using assms
  by (auto simp add: nth_similarities_of dot_zero_left dot_zero_right normalize_row_zero)

section \<open>Properties of the cache and of the application\<close>

lemma encodes_once_fresh: "encodes_once fresh_state"
  by (simp add: encodes_once_def fresh_state_def)

lemma cached_hit:
  "embeddings_cache st song_texts = Some r \<Longrightarrow>
     get_song_embeddings_cached song_texts model st = (r, st)"
  by (simp add: get_song_embeddings_cached_def)

lemma cached_stores:
  "embeddings_cache (snd (get_song_embeddings_cached song_texts model st)) song_texts \<noteq> None"
  by (cases "embeddings_cache st song_texts")
     (auto simp add: get_song_embeddings_cached_def get_song_embeddings_run_def
        split: option.splits prod.splits)

lemma cached_encodes_once:
  assumes "encodes_once st"
  shows "encodes_once (snd (get_song_embeddings_cached song_texts model st))"
proof (cases "embeddings_cache st song_texts")
  case None
  with assms have "song_texts \<notin> set (corpus_encodes st)"
    by (auto simp add: encodes_once_def)
  with assms None show ?thesis
    by (auto simp add: encodes_once_def get_song_embeddings_cached_def
          get_song_embeddings_run_def split: option.splits)
next
  case (Some r)
  with assms show ?thesis by (simp add: cached_hit)
qed

lemma cached_result:
  assumes "cache_coherent m st"
  shows "fst (get_song_embeddings_cached song_texts (Some m) st) =
           get_song_embeddings song_texts (Some m)"
    and "cache_coherent m (snd (get_song_embeddings_cached song_texts (Some m) st))"
  using assms
  by (auto simp add: cache_coherent_def get_song_embeddings_cached_def
        get_song_embeddings_run_def get_song_embeddings_def split: option.splits if_splits)

lemma recommend_st_cache:
  "embeddings_cache (snd (get_recommendations_fast_st srt q songs model k st)) =
     embeddings_cache (snd (get_song_embeddings_cached (fst (preprocess_songs songs)) model st))
   \<or> snd (get_recommendations_fast_st srt q songs model k st) = st"
  by (auto simp add: get_recommendations_fast_st_def Let_def split: option.splits prod.splits)

lemma recommend_st_corpus_encodes:
  "corpus_encodes (snd (get_recommendations_fast_st srt q songs model k st)) =
     corpus_encodes (snd (get_song_embeddings_cached (fst (preprocess_songs songs)) model st))
   \<or> snd (get_recommendations_fast_st srt q songs model k st) = st"
  by (auto simp add: get_recommendations_fast_st_def Let_def split: option.splits prod.splits)

lemma recommend_st_encodes_once:
  assumes "encodes_once st"
  shows "encodes_once (snd (get_recommendations_fast_st srt q songs model k st))"
  using recommend_st_cache [of srt q songs model k st]
    recommend_st_corpus_encodes [of srt q songs model k st]
    cached_encodes_once [OF assms, of "fst (preprocess_songs songs)" model] assms
  by (auto simp add: encodes_once_def)

lemma run_requests_encodes_once:
  "encodes_once st \<Longrightarrow> encodes_once (run_requests srt rs st)"
  by (induction srt rs st rule: run_requests.induct) (simp_all add: recommend_st_encodes_once)

lemma second_call_no_corpus_encode:
  "corpus_encodes
     (snd (get_recommendations_fast_st srt q2 songs model2 k2
        (snd (get_recommendations_fast_st srt q1 songs (Some m) k1 st)))) =
   corpus_encodes (snd (get_recommendations_fast_st srt q1 songs (Some m) k1 st))"
proof (cases "songs = [] \<or> fst (preprocess_songs songs) = []")
  case True
  then show ?thesis
    by (auto simp add: get_recommendations_fast_st_def Let_def split: option.splits prod.splits)
next
  case False
  let ?texts = "fst (preprocess_songs songs)"
  let ?st1 = "snd (get_recommendations_fast_st srt q1 songs (Some m) k1 st)"
  have c1: "embeddings_cache ?st1 =
      embeddings_cache (snd (get_song_embeddings_cached ?texts (Some m) st))"
    using False
    by (auto simp add: get_recommendations_fast_st_def Let_def split: option.splits prod.splits)
  then have "embeddings_cache ?st1 ?texts \<noteq> None"
    by (simp add: cached_stores)
  then obtain r where r: "embeddings_cache ?st1 ?texts = Some r" by auto
  have "get_song_embeddings_cached ?texts model2 ?st1 = (r, ?st1)"
    by (rule cached_hit [OF r])
  then show ?thesis
    by (auto simp add: get_recommendations_fast_st_def Let_def split: option.splits prod.splits)
qed

lemma recommend_st_refines:
  assumes "cache_coherent m st"
  shows "fst (get_recommendations_fast_st srt q songs (Some m) k st) =
           get_recommendations_fast srt q songs (Some m) k"
    and "cache_coherent m (snd (get_recommendations_fast_st srt q songs (Some m) k st))"
proof -
  let ?texts = "fst (preprocess_songs songs)"
  obtain r st1 where c: "get_song_embeddings_cached ?texts (Some m) st = (r, st1)"
    by (cases "get_song_embeddings_cached ?texts (Some m) st")
  from cached_result [OF assms, of ?texts] c
  have r: "r = get_song_embeddings ?texts (Some m)" and co: "cache_coherent m st1"
    by simp_all
  show "fst (get_recommendations_fast_st srt q songs (Some m) k st) =
           get_recommendations_fast srt q songs (Some m) k"
    using c r
    by (simp add: get_recommendations_fast_st_def get_recommendations_fast_def Let_def
          case_prod_beta split: option.splits)
  show "cache_coherent m (snd (get_recommendations_fast_st srt q songs (Some m) k st))"
    using c co assms
    by (auto simp add: get_recommendations_fast_st_def Let_def cache_coherent_def
          split: option.splits prod.splits)
qed

lemma main_blank_query:
  assumes "songs_data \<noteq> []" and "strip sermon_text = []"
  shows "fst (main srt songs_data (Some m) True sermon_text st) = Empty_query_warning"
    and "snd (main srt songs_data (Some m) True sermon_text st) =
           snd (main srt songs_data (Some m) False sermon_text st)"
    and "query_encodes (snd (main srt songs_data (Some m) True sermon_text st)) = query_encodes st"
    and "embeddings_cache st (fst (preprocess_songs songs_data)) \<noteq> None \<longrightarrow>
           snd (main srt songs_data (Some m) True sermon_text st) = st"
  using assms
  by (auto simp add: main_def Let_def get_song_embeddings_cached_def get_song_embeddings_run_def
        split: option.splits prod.splits)

lemma main_encodes_once:
  assumes "encodes_once st"
  shows "encodes_once (snd (main srt songs_data model clicked q st))"
proof -
  let ?st1 = "snd (get_song_embeddings_cached (fst (preprocess_songs songs_data)) model st)"
  have one: "encodes_once ?st1" using assms by (rule cached_encodes_once)
  have two: "encodes_once (snd (get_recommendations_fast_st srt (strip q) songs_data model 5 ?st1))"
    using one by (rule recommend_st_encodes_once)
  from assms one two show ?thesis
    by (simp add: main_def Let_def case_prod_beta)
qed

section \<open>Evaluation of the ranking\<close>

text \<open>The definitions unfolded to run the operations on concrete inputs.\<close>

lemmas eval_defs =
  get_recommendations_fast_def preprocess_songs_def get_lyrics_def get_filename_def strip_def
  isspace_def get_song_embeddings_def encode_def similarities_of_def cosine_similarity_def
  dot_def normalize_row_def row_norm_def handle_zeros_in_scale_def axis_encoder_def
  top_indices_of_def insertion_argsort_def slice_to_def round3_def rint_def upt_rec Let_def

text \<open>What every sort returns on arrays of at most two values.\<close>

lemma argsort_nil: "is_argsort srt \<Longrightarrow> srt [] = []"
  using set_argsort [of srt "[]"] by simp

lemma argsort_singleton:
  assumes "is_argsort srt"
  shows "srt [x] = [0]"
proof -
  have len: "length (srt [x]) = 1" using length_argsort [OF assms, of "[x]"] by simp
  then obtain i where i: "srt [x] = [i]"
    by (cases "srt [x]") auto
  with set_argsort [OF assms, of "[x]"] show ?thesis by simp
qed

lemma argsort_pair:
  assumes "is_argsort srt"
  shows "srt [x, y] = [0, 1] \<or> srt [x, y] = [1, 0]"
proof -
  have "length (srt [x, y]) = 2" using length_argsort [OF assms, of "[x, y]"] by simp
  then obtain i j where ij: "srt [x, y] = [i, j]"
    by (cases "srt [x, y]"; cases "tl (srt [x, y])") auto
  from set_argsort [OF assms, of "[x, y]"] ij have s: "{i, j} = {0, 1}"
    by (auto simp add: atLeastLessThanSuc)
  from distinct_argsort [OF assms, of "[x, y]"] ij have d: "i \<noteq> j" by simp
  from s d have "(i = 0 \<and> j = 1) \<or> (i = 1 \<and> j = 0)"
    by (metis doubleton_eq_iff)
  with ij show ?thesis by auto
qed

lemma argsort_pair_descending:
  assumes "is_argsort srt" and "y < x"
  shows "srt [x, y] = [1, 0]"
proof -
  from argsort_pair [OF assms(1), of x y] show ?thesis
  proof
    assume a: "srt [x, y] = [0, 1]"
    from sorted_argsort [OF assms(1), of "[x, y]"] a have "x \<le> y" by simp
    with assms(2) show ?thesis by simp
  qed
qed

lemma recommend_emit:
  assumes "is_argsort srt"
  shows "get_recommendations_fast srt q songs (Some m) k =
     emit_loop
       (top_indices_of srt (similarities_of m q (encode m (fst (preprocess_songs songs)))) k)
       (snd (preprocess_songs songs))
       (similarities_of m q (encode m (fst (preprocess_songs songs))))
       songs []"
proof (cases "fst (preprocess_songs songs) = []")
  case True
  have "similarities_of m q [] = []"
    using length_similarities_of [of m q "[]"] by simp
  then have "top_indices_of srt (similarities_of m q []) k = []"
    by (simp add: top_indices_of_def argsort_nil [OF assms] slice_to_def)
  with True show ?thesis
    by (simp add: get_recommendations_fast_def case_prod_beta encode_def)
next
  case False
  then have "songs \<noteq> []" by (auto simp add: preprocess_songs_def)
  with False show ?thesis
    by (simp add: get_recommendations_fast_def get_song_embeddings_def case_prod_beta Let_def)
qed

lemma recommend_no_model: "get_recommendations_fast srt q songs None k = []"
  by (simp add: get_recommendations_fast_def)

lemma recommend_no_texts:
  "fst (preprocess_songs songs) = [] \<Longrightarrow> get_recommendations_fast srt q songs model k = []"
  by (simp add: get_recommendations_fast_def case_prod_beta split: option.splits)

text \<open>Every ranked index is a position of the prepared names: \<open>song_names[idx]\<close> is in range.\<close>

lemma ranked_index_in_names:
  assumes "is_argsort srt"
    and "i \<in> set (top_indices_of srt
                      (similarities_of m q (encode m (fst (preprocess_songs songs)))) k)"
  shows "i < length (snd (preprocess_songs songs))"
  using top_indices_in_range [OF assms]
  by (simp add: length_similarities_of encode_def preprocess_songs_filter)

lemma length_recommend:
  assumes "is_argsort srt"
  shows "length (get_recommendations_fast srt q songs model k)
     \<le> (if 0 \<le> k then min (nat k) (length (fst (preprocess_songs songs)))
        else length (fst (preprocess_songs songs)) - nat (- k))"
proof (cases model)
  case None
  then show ?thesis by (simp add: recommend_no_model)
next
  case (Some m)
  let ?sims = "similarities_of m q (encode m (fst (preprocess_songs songs)))"
  have "length (get_recommendations_fast srt q songs (Some m) k)
          \<le> length (top_indices_of srt ?sims k)"
    by (simp add: recommend_emit [OF assms] length_emit_loop)
  also have "length (top_indices_of srt ?sims k) =
      (if 0 \<le> k then min (nat k) (length (fst (preprocess_songs songs)))
       else length (fst (preprocess_songs songs)) - nat (- k))"
    by (simp add: length_top_indices [OF assms] length_similarities_of encode_def)
  finally show ?thesis using Some by simp
qed

lemma recommend_map_filter:
  assumes "is_argsort srt"
  shows "get_recommendations_fast srt q songs (Some m) k =
     List.map_filter
       (emitted (snd (preprocess_songs songs))
          (similarities_of m q (encode m (fst (preprocess_songs songs)))) songs)
       (top_indices_of srt (similarities_of m q (encode m (fst (preprocess_songs songs)))) k)"
  by (simp add: recommend_emit [OF assms] emit_loop_map_filter)

section \<open>Order of the recommendations\<close>

text \<open>
  C1, as the code has it. For every sort that \<open>np.argsort\<close> may be, the result is the
  emission over the ranked indices of the request, the ranked indices come in descending
  order of their score, and the rounded scores of the recommendations returned descend as
  well. No order is fixed among entries of equal score: it is the reverse of whatever
  order the sort leaves among equal values.
\<close>

theorem recommendations_descending:
  assumes "is_argsort argsort"
  shows "get_recommendations_fast argsort sermon_text songs (Some m) top_k =
      List.map_filter
        (emitted (snd (preprocess_songs songs))
           (similarities_of m sermon_text (encode m (fst (preprocess_songs songs)))) songs)
        (top_indices_of argsort
           (similarities_of m sermon_text (encode m (fst (preprocess_songs songs)))) top_k)
    \<and> sorted_wrt
        (\<lambda>i j. similarities_of m sermon_text (encode m (fst (preprocess_songs songs))) ! j
                 \<le> similarities_of m sermon_text (encode m (fst (preprocess_songs songs))) ! i)
        (top_indices_of argsort
           (similarities_of m sermon_text (encode m (fst (preprocess_songs songs)))) top_k)
    \<and> sorted_wrt (\<lambda>a b. similarity_score b \<le> similarity_score a)
        (get_recommendations_fast argsort sermon_text songs model top_k)"
proof -
  have "sorted_wrt (\<lambda>a b. similarity_score b \<le> similarity_score a)
        (get_recommendations_fast argsort sermon_text songs model top_k)"
  proof (cases model)
    case None
    then show ?thesis by (simp add: recommend_no_model)
  next
    case (Some m')
    then show ?thesis
      by (simp add: recommend_emit [OF assms] emit_loop_descending
            top_indices_descending [OF assms])
  qed
  then show ?thesis
    by (simp add: recommend_map_filter [OF assms] top_indices_descending [OF assms])
qed

theorem recommendations_descending_witness:
  "get_recommendations_fast insertion_argsort ''grace and amazing love''
     [\<lparr>filename = Some ''song1'', lyrics = Some [''joy'', ''peace'']\<rparr>,
      \<lparr>filename = Some ''song2'', lyrics = Some [''grace'', ''amazing'']\<rparr>,
      \<lparr>filename = Some ''song3'', lyrics = Some []\<rparr>]
     (Some axis_encoder) 2
   = [\<lparr>rec_filename = ''song2'', rec_lyrics = [''grace'', ''amazing''], similarity_score = 1\<rparr>,
      \<lparr>rec_filename = ''song1'', rec_lyrics = [''joy'', ''peace''], similarity_score = 0\<rparr>]
   \<and> sorted_wrt (\<lambda>a b. similarity_score b \<le> similarity_score a)
       (get_recommendations_fast insertion_argsort ''grace and amazing love''
          [\<lparr>filename = Some ''song1'', lyrics = Some [''joy'', ''peace'']\<rparr>,
           \<lparr>filename = Some ''song2'', lyrics = Some [''grace'', ''amazing'']\<rparr>,
           \<lparr>filename = Some ''song3'', lyrics = Some []\<rparr>]
          (Some axis_encoder) 2)"
  using recommendations_descending
    [OF is_argsort_insertion,
      where sermon_text = "''grace and amazing love''"
        and songs = "[\<lparr>filename = Some ''song1'', lyrics = Some [''joy'', ''peace'']\<rparr>,
                      \<lparr>filename = Some ''song2'', lyrics = Some [''grace'', ''amazing'']\<rparr>,
                      \<lparr>filename = Some ''song3'', lyrics = Some []\<rparr>]"
        and m = axis_encoder and model = "Some axis_encoder" and top_k = 2]
  by (simp add: eval_defs emitted_def)

text \<open>
  Two records with the same lyrics have the same score under every model. With a sort
  that leaves them in index order, as \<open>np.argsort\<close> does on this array, the second
  record of the corpus is returned first.
\<close>

theorem tie_order_counterexample:
  "get_recommendations_fast insertion_argsort ''x''
     [\<lparr>filename = Some ''a'', lyrics = Some [''x'']\<rparr>,
      \<lparr>filename = Some ''b'', lyrics = Some [''x'']\<rparr>]
     (Some axis_encoder) 5
   = [\<lparr>rec_filename = ''b'', rec_lyrics = [''x''], similarity_score = 1\<rparr>,
      \<lparr>rec_filename = ''a'', rec_lyrics = [''x''], similarity_score = 1\<rparr>]"
  by (simp add: eval_defs)

section \<open>Length of the result\<close>

text \<open>
  C3, as the code has it, for every sort that \<open>np.argsort\<close> may be. There is one
  score for each of the \<open>n\<close> records with non-empty text. The ranked indices are the
  slice of the descending ranking, which has \<open>n\<close> entries: its first \<open>min top_k n\<close>
  entries when \<open>top_k \<ge> 0\<close>, and all but its last \<open>- top_k\<close> entries when
  \<open>top_k < 0\<close>. The result holds exactly one recommendation for each ranked index whose
  name is found in the corpus, in ranking order. So it has at most \<open>min top_k n\<close>
  entries for \<open>top_k \<ge> 0\<close>, it is empty for \<open>top_k = 0\<close>, and for \<open>top_k < 0\<close>
  nothing fails but up to \<open>n - (- top_k)\<close> entries are returned.
\<close>

theorem recommendations_length:
  assumes "is_argsort argsort"
  shows "length (similarities_of m sermon_text (encode m (fst (preprocess_songs songs))))
      = length (filter (\<lambda>s. strip (join_space (get_lyrics s)) \<noteq> []) songs)
    \<and> length (rev (argsort
          (similarities_of m sermon_text (encode m (fst (preprocess_songs songs))))))
      = length (filter (\<lambda>s. strip (join_space (get_lyrics s)) \<noteq> []) songs)
    \<and> top_indices_of argsort
        (similarities_of m sermon_text (encode m (fst (preprocess_songs songs)))) top_k
      = (if 0 \<le> top_k
         then take
           (min (nat top_k)
              (length (filter (\<lambda>s. strip (join_space (get_lyrics s)) \<noteq> []) songs)))
           (rev (argsort
              (similarities_of m sermon_text (encode m (fst (preprocess_songs songs))))))
         else take
           (length (filter (\<lambda>s. strip (join_space (get_lyrics s)) \<noteq> []) songs)
              - nat (- top_k))
           (rev (argsort
              (similarities_of m sermon_text (encode m (fst (preprocess_songs songs)))))))
    \<and> get_recommendations_fast argsort sermon_text songs (Some m) top_k
      = List.map_filter
          (emitted (snd (preprocess_songs songs))
             (similarities_of m sermon_text (encode m (fst (preprocess_songs songs)))) songs)
          (top_indices_of argsort
             (similarities_of m sermon_text (encode m (fst (preprocess_songs songs)))) top_k)
    \<and> length (get_recommendations_fast argsort sermon_text songs (Some m) top_k)
      = length
          (filter
             (\<lambda>i. find (\<lambda>s. filename s = Some (snd (preprocess_songs songs) ! i)) songs
                    \<noteq> None)
             (top_indices_of argsort
                (similarities_of m sermon_text (encode m (fst (preprocess_songs songs))))
                top_k))
    \<and> length (get_recommendations_fast argsort sermon_text songs model top_k)
      \<le> (if 0 \<le> top_k
          then min (nat top_k)
                 (length (filter (\<lambda>s. strip (join_space (get_lyrics s)) \<noteq> []) songs))
          else length (filter (\<lambda>s. strip (join_space (get_lyrics s)) \<noteq> []) songs)
                 - nat (- top_k))
    \<and> get_recommendations_fast argsort sermon_text songs model 0 = []"
proof -
  let ?n = "length (filter (\<lambda>s. strip (join_space (get_lyrics s)) \<noteq> []) songs)"
  let ?sims = "similarities_of m sermon_text (encode m (fst (preprocess_songs songs)))"
  have n: "length (fst (preprocess_songs songs)) = ?n"
    by (simp add: preprocess_songs_filter)
  have a: "length ?sims = ?n"
    by (simp add: length_similarities_of encode_def n)
  have b: "length (rev (argsort ?sims)) = ?n"
    by (simp add: length_argsort [OF assms] a)
  have c: "top_indices_of argsort ?sims top_k =
      (if 0 \<le> top_k then take (min (nat top_k) ?n) (rev (argsort ?sims))
       else take (?n - nat (- top_k)) (rev (argsort ?sims)))"
    using b by (simp add: top_indices_of_def slice_to_def min_def)
  have d: "get_recommendations_fast argsort sermon_text songs (Some m) top_k =
      List.map_filter (emitted (snd (preprocess_songs songs)) ?sims songs)
        (top_indices_of argsort ?sims top_k)"
    by (rule recommend_map_filter [OF assms])
  have e: "length (get_recommendations_fast argsort sermon_text songs (Some m) top_k) =
      length (filter
        (\<lambda>i. find (\<lambda>s. filename s = Some (snd (preprocess_songs songs) ! i)) songs \<noteq> None)
        (top_indices_of argsort ?sims top_k))"
    by (simp add: d List.map_filter_def emitted_def)
  have len: "\<And>k. length (get_recommendations_fast argsort sermon_text songs model k)
      \<le> (if 0 \<le> k then min (nat k) ?n else ?n - nat (- k))"
    using length_recommend [OF assms, of sermon_text songs model] by (simp only: n)
  have f: "get_recommendations_fast argsort sermon_text songs model 0 = []"
    using len [of 0] by simp
  from a b c d e len [of top_k] f show ?thesis by (intro conjI)
qed

theorem recommendations_length_witness:
  "top_indices_of insertion_argsort
     (similarities_of axis_encoder ''grace and amazing love''
        (encode axis_encoder
           (fst (preprocess_songs
              [\<lparr>filename = Some ''song1'', lyrics = Some [''grace'', ''amazing'']\<rparr>,
               \<lparr>filename = None, lyrics = Some [''joy'', ''peace'']\<rparr>,
               \<lparr>filename = Some ''song3'', lyrics = Some []\<rparr>])))) 5
   = [0, 1]
   \<and> get_recommendations_fast insertion_argsort ''grace and amazing love''
       [\<lparr>filename = Some ''song1'', lyrics = Some [''grace'', ''amazing'']\<rparr>,
        \<lparr>filename = None, lyrics = Some [''joy'', ''peace'']\<rparr>,
        \<lparr>filename = Some ''song3'', lyrics = Some []\<rparr>]
       (Some axis_encoder) 5
     = [\<lparr>rec_filename = ''song1'', rec_lyrics = [''grace'', ''amazing''],
         similarity_score = 1\<rparr>]"
  using recommendations_length
    [OF is_argsort_insertion,
      where sermon_text = "''grace and amazing love''"
        and songs = "[\<lparr>filename = Some ''song1'', lyrics = Some [''grace'', ''amazing'']\<rparr>,
                      \<lparr>filename = None, lyrics = Some [''joy'', ''peace'']\<rparr>,
                      \<lparr>filename = Some ''song3'', lyrics = Some []\<rparr>]"
        and m = axis_encoder and model = "Some axis_encoder" and top_k = 5]
  by (simp add: eval_defs emitted_def)

text \<open>
  Two embeddable records of different score and \<open>top_k = - 1\<close>: the better one is
  returned, whatever the sort does with equal values.
\<close>

theorem negative_top_k_counterexample:
  "get_recommendations_fast insertion_argsort ''grace''
     [\<lparr>filename = Some ''a'', lyrics = Some [''grace'']\<rparr>,
      \<lparr>filename = Some ''b'', lyrics = Some [''y'']\<rparr>]
     (Some axis_encoder) (- 1)
   = [\<lparr>rec_filename = ''a'', rec_lyrics = [''grace''], similarity_score = 1\<rparr>]"
  by (simp add: eval_defs)

text \<open>The same holds for every sort, since the two scores differ.\<close>

lemma negative_top_k_any_sort:
  assumes "is_argsort srt"
  shows "get_recommendations_fast srt ''grace''
     [\<lparr>filename = Some ''a'', lyrics = Some [''grace'']\<rparr>,
      \<lparr>filename = Some ''b'', lyrics = Some [''y'']\<rparr>]
     (Some axis_encoder) (- 1)
   = [\<lparr>rec_filename = ''a'', rec_lyrics = [''grace''], similarity_score = 1\<rparr>]"
  using argsort_pair_descending [OF assms, of 0 1]
  by (simp add: eval_defs)

section \<open>Degenerate embeddings\<close>

text \<open>
  C4, as the code has it. The ranking has no substitution of its own for a vector of norm
  zero: every score is the value the library's cosine similarity returns. That function
  replaces a norm of zero by one before dividing, so when the query vector or the vector
  of an entry has norm zero the entry's score is 0 (not \<open>- 1\<close>), and nothing fails.
\<close>

theorem zero_norm_score_is_zero:
  assumes "i < length song_embeddings"
    and "row_norm (m sermon_text) = 0 \<or> row_norm (song_embeddings ! i) = 0"
  shows "similarities_of m sermon_text song_embeddings ! i = 0"
  using assms by (rule zero_norm_score)

theorem zero_norm_score_is_zero_witness:
  "similarities_of axis_encoder [] [axis_encoder ''x'', axis_encoder ''grace''] ! 1 = 0"
  using zero_norm_score_is_zero
    [of 1 "[axis_encoder ''x'', axis_encoder ''grace'']" axis_encoder "[]"]
  by (simp add: row_norm_def axis_encoder_def)

text \<open>A query encoded as the zero vector: the entry has the score 0, for every sort.\<close>

lemma zero_norm_any_sort:
  assumes "is_argsort srt"
  shows "get_recommendations_fast srt []
       [\<lparr>filename = Some ''a'', lyrics = Some [''x'']\<rparr>] (Some axis_encoder) 5
     = [\<lparr>rec_filename = ''a'', rec_lyrics = [''x''], similarity_score = 0\<rparr>]"
  using argsort_singleton [OF assms, of 0]
  by (simp add: eval_defs)

text \<open>The same input, run with the insertion sort.\<close>

theorem zero_norm_counterexample:
  "row_norm (axis_encoder []) = 0
   \<and> get_recommendations_fast insertion_argsort []
       [\<lparr>filename = Some ''a'', lyrics = Some [''x'']\<rparr>] (Some axis_encoder) 5
     = [\<lparr>rec_filename = ''a'', rec_lyrics = [''x''], similarity_score = 0\<rparr>]"
  by (simp add: eval_defs)

section \<open>The record behind a recommendation\<close>

text \<open>
  Where the filenames of the corpus are pairwise different, the lookup by name finds the
  record that produced the ranked position, and the recommendation carries its lyrics.
\<close>

lemma find_unique_filename:
  assumes "distinct (map filename songs)" and "s \<in> set songs" and "filename s = Some n"
  shows "find (\<lambda>s'. filename s' = Some n) songs = Some s"
  using assms
proof (induction songs)
  case Nil
  then show ?case by simp
next
  case (Cons a songs)
  show ?case
  proof (cases "filename a = Some n")
    case True
    with Cons.prems have "s = a" by (cases "s = a") (auto simp add: image_iff)
    with True show ?thesis by simp
  next
    case False
    with Cons show ?thesis by auto
  qed
qed

lemma emitted_unique_filenames:
  assumes "distinct (map filename songs)"
    and "i < length (filter (\<lambda>s. strip (join_space (get_lyrics s)) \<noteq> []) songs)"
    and "filename (filter (\<lambda>s. strip (join_space (get_lyrics s)) \<noteq> []) songs ! i) = Some n"
  shows "emitted (snd (preprocess_songs songs)) sims songs i =
           Some \<lparr>rec_filename = n,
                 rec_lyrics =
                   get_lyrics (filter (\<lambda>s. strip (join_space (get_lyrics s)) \<noteq> []) songs ! i),
                 similarity_score = round3 (sims ! i)\<rparr>"
proof -
  let ?kept = "filter (\<lambda>s. strip (join_space (get_lyrics s)) \<noteq> []) songs"
  from assms(2) have "?kept ! i \<in> set ?kept" by (rule nth_mem)
  then have mem: "?kept ! i \<in> set songs" by simp
  from assms(2,3) have name: "snd (preprocess_songs songs) ! i = n"
    by (simp add: preprocess_songs_filter get_filename_def)
  from find_unique_filename [OF assms(1) mem assms(3)] name show ?thesis
    by (simp add: emitted_def)
qed

text \<open>
  Two records that share a filename: whatever the sort does with the two equal scores,
  both recommendations carry the lyrics of the first record.
\<close>

lemma duplicate_filename_any_sort:
  assumes "is_argsort srt"
  shows "get_recommendations_fast srt ''q''
       [\<lparr>filename = Some ''a'', lyrics = Some [''x'']\<rparr>,
        \<lparr>filename = Some ''a'', lyrics = Some [''y'']\<rparr>]
       (Some axis_encoder) 5
     = [\<lparr>rec_filename = ''a'', rec_lyrics = [''x''], similarity_score = 1\<rparr>,
        \<lparr>rec_filename = ''a'', rec_lyrics = [''x''], similarity_score = 1\<rparr>]"
  using argsort_pair [OF assms, of 1 1]
  by (elim disjE) (simp_all add: eval_defs)

text \<open>
  C2 at a corpus in which two records share a filename. Position 1 of the prepared texts
  comes from the second record, whose lyrics are \<open>y\<close>; the recommendation emitted for
  it is looked up by name and carries the lyrics \<open>x\<close> of the first record.
\<close>

theorem duplicate_filename_lyrics:
  "fst (preprocess_songs
     [\<lparr>filename = Some ''a'', lyrics = Some [''x'']\<rparr>,
      \<lparr>filename = Some ''a'', lyrics = Some [''y'']\<rparr>]) = [''x'', ''y'']
   \<and> get_recommendations_fast insertion_argsort ''q''
       [\<lparr>filename = Some ''a'', lyrics = Some [''x'']\<rparr>,
        \<lparr>filename = Some ''a'', lyrics = Some [''y'']\<rparr>]
       (Some axis_encoder) 5
     = [\<lparr>rec_filename = ''a'', rec_lyrics = [''x''], similarity_score = 1\<rparr>,
        \<lparr>rec_filename = ''a'', rec_lyrics = [''x''], similarity_score = 1\<rparr>]"
  using duplicate_filename_any_sort [OF is_argsort_insertion]
  by (simp add: preprocess_songs_def get_lyrics_def strip_def isspace_def Let_def)

text \<open>A record with empty lyrics that comes first under a shared filename, for every sort.\<close>

lemma empty_record_any_sort:
  assumes "is_argsort srt"
  shows "get_recommendations_fast srt ''q''
       [\<lparr>filename = Some ''a'', lyrics = Some []\<rparr>,
        \<lparr>filename = Some ''a'', lyrics = Some [''y'']\<rparr>]
       (Some axis_encoder) 5
     = [\<lparr>rec_filename = ''a'', rec_lyrics = [], similarity_score = 1\<rparr>]"
  using argsort_singleton [OF assms, of 1]
  by (simp add: eval_defs)

text \<open>
  C6 at a corpus in which a record with empty lyrics shares its filename with a record
  that has lyrics. The empty record is not in the prepared text, but the only
  recommendation returned carries its (empty) lyrics: the lookup by name finds it first.
\<close>

theorem empty_record_lyrics_returned:
  "preprocess_songs
     [\<lparr>filename = Some ''a'', lyrics = Some []\<rparr>,
      \<lparr>filename = Some ''a'', lyrics = Some [''y'']\<rparr>] = ([''y''], [''a''])
   \<and> get_recommendations_fast insertion_argsort ''q''
       [\<lparr>filename = Some ''a'', lyrics = Some []\<rparr>,
        \<lparr>filename = Some ''a'', lyrics = Some [''y'']\<rparr>]
       (Some axis_encoder) 5
     = [\<lparr>rec_filename = ''a'', rec_lyrics = [], similarity_score = 1\<rparr>]"
  using empty_record_any_sort [OF is_argsort_insertion]
  by (simp add: preprocess_songs_def get_lyrics_def get_filename_def strip_def isspace_def
        Let_def)

section \<open>An unavailable model\<close>

lemma recommend_st_no_model: "get_recommendations_fast_st srt q songs None k st = ([], st)"
  by (simp add: get_recommendations_fast_st_def)

lemma main_no_model: "main srt songs_data None clicked q st = (Load_error, st)"
  by (simp add: main_def)

text \<open>
  C8, as the code has it. With the model unavailable \<open>get_recommendations_fast\<close>
  returns the plain empty list and leaves the state alone, and it returns the same empty
  list for a corpus without embeddable text: its caller cannot tell the two apart. The
  failure is shown by \<open>main\<close> only, as a load error, before any request is handled.
\<close>

theorem unavailable_model_empty_result:
  "get_recommendations_fast argsort sermon_text songs None top_k = []
   \<and> get_recommendations_fast_st argsort sermon_text songs None top_k st = ([], st)
   \<and> (fst (preprocess_songs songs) = [] \<longrightarrow>
        get_recommendations_fast argsort sermon_text songs model top_k = [])
   \<and> main argsort songs None clicked sermon_text st = (Load_error, st)"
  by (simp add: recommend_no_model recommend_no_texts recommend_st_no_model main_no_model)

theorem unavailable_model_empty_result_witness:
  "get_recommendations_fast insertion_argsort ''grace''
     [\<lparr>filename = Some ''song3'', lyrics = Some []\<rparr>] (Some axis_encoder) 5 = []
   \<and> main insertion_argsort [\<lparr>filename = Some ''song1'', lyrics = Some [''grace'']\<rparr>] None
       True ''grace'' fresh_state = (Load_error, fresh_state)"
  using unavailable_model_empty_result
    [where argsort = insertion_argsort and sermon_text = "''grace''"
       and songs = "[\<lparr>filename = Some ''song3'', lyrics = Some []\<rparr>]" and top_k = 5
       and st = fresh_state and model = "Some axis_encoder" and clicked = True]
    unavailable_model_empty_result
    [where argsort = insertion_argsort and sermon_text = "''grace''"
       and songs = "[\<lparr>filename = Some ''song1'', lyrics = Some [''grace'']\<rparr>]" and top_k = 5
       and st = fresh_state and model = "Some axis_encoder" and clicked = True]
  by (simp add: preprocess_songs_def get_lyrics_def strip_def)

text \<open>The same plain empty result without a model and without embeddable text.\<close>

theorem model_unavailable_counterexample:
  "get_recommendations_fast insertion_argsort ''grace''
     [\<lparr>filename = Some ''song1'', lyrics = Some [''grace'']\<rparr>] None 5 = []
   \<and> get_recommendations_fast insertion_argsort ''grace''
       [\<lparr>filename = Some ''song3'', lyrics = Some []\<rparr>] (Some axis_encoder) 5 = []"
  by (simp add: eval_defs)

section \<open>Missing keys\<close>

lemma emitted_filename:
  "emitted names sims songs i = Some r \<Longrightarrow> rec_filename r = names ! i"
  by (auto simp add: emitted_def)

lemma emit_loop_filenames:
  "map rec_filename (emit_loop idxs names sims songs []) =
     map (\<lambda>i. names ! i)
       (filter (\<lambda>i. find (\<lambda>s. filename s = Some (names ! i)) songs \<noteq> None) idxs)"
proof -
  have "map rec_filename (List.map_filter (emitted names sims songs) idxs) =
      map (\<lambda>i. names ! i) (filter (\<lambda>i. emitted names sims songs i \<noteq> None) idxs)"
    by (auto simp add: List.map_filter_def emitted_filename)
  then show ?thesis
    by (simp add: emit_loop_map_filter emitted_def)
qed

lemma preprocess_songs_append:
  "preprocess_songs (xs @ ys) =
     (fst (preprocess_songs xs) @ fst (preprocess_songs ys),
      snd (preprocess_songs xs) @ snd (preprocess_songs ys))"
  by (simp add: preprocess_songs_filter)

lemma preprocess_no_lyrics:
  "lyrics s = None \<Longrightarrow> preprocess_songs (xs @ s # ys) = preprocess_songs (xs @ ys)"
  by (simp add: preprocess_songs_filter get_lyrics_def strip_def)

lemma preprocess_no_filename:
  "filename s = None \<Longrightarrow> strip (join_space (get_lyrics s)) \<noteq> [] \<Longrightarrow>
     preprocess_songs (xs @ s # ys) =
       (fst (preprocess_songs xs) @ join_space (get_lyrics s) # fst (preprocess_songs ys),
        snd (preprocess_songs xs) @ ''Unknown'' # snd (preprocess_songs ys))"
  by (simp add: preprocess_songs_filter get_filename_def)

text \<open>
  C10. A record without the key \<open>'lyrics'\<close> is treated as having no lyrics and is left
  out of the prepared lists, wherever it stands in the corpus. A surviving record without
  the key \<open>'filename'\<close> is given the name \<open>Unknown\<close> at its position of the prepared
  names. For every sort, the filename of every recommendation is the prepared name of the
  ranked index it is emitted for, so it is \<open>Unknown\<close> for such a record; a
  recommendation is emitted for a ranked index only when some record of the corpus
  carries that name as its \<open>'filename'\<close>.
\<close>

theorem missing_keys_tolerated:
  assumes "is_argsort argsort"
  shows "(lyrics s = None \<longrightarrow> preprocess_songs (xs @ s # ys) = preprocess_songs (xs @ ys))
   \<and> (filename s = None \<and> strip (join_space (get_lyrics s)) \<noteq> [] \<longrightarrow>
        preprocess_songs (xs @ s # ys) =
          (fst (preprocess_songs xs) @ join_space (get_lyrics s) # fst (preprocess_songs ys),
           snd (preprocess_songs xs) @ ''Unknown'' # snd (preprocess_songs ys)))
   \<and> map rec_filename (get_recommendations_fast argsort sermon_text songs (Some m) top_k) =
        map (\<lambda>i. snd (preprocess_songs songs) ! i)
          (filter
             (\<lambda>i. find (\<lambda>s. filename s = Some (snd (preprocess_songs songs) ! i)) songs
                    \<noteq> None)
             (top_indices_of argsort
                (similarities_of m sermon_text (encode m (fst (preprocess_songs songs))))
                top_k))"
  by (simp add: preprocess_no_lyrics preprocess_no_filename recommend_emit [OF assms]
        emit_loop_filenames)

theorem missing_keys_tolerated_witness:
  "preprocess_songs
     ([] @ \<lparr>filename = Some ''a'', lyrics = None\<rparr>
        # [\<lparr>filename = None, lyrics = Some [''x'']\<rparr>])
     = preprocess_songs ([] @ [\<lparr>filename = None, lyrics = Some [''x'']\<rparr>])
   \<and> preprocess_songs
       ([] @ \<lparr>filename = None, lyrics = Some [''x'']\<rparr>
          # [\<lparr>filename = Some ''Unknown'', lyrics = None\<rparr>])
     = ([''x''], [''Unknown''])
   \<and> map rec_filename
       (get_recommendations_fast insertion_argsort ''q''
          [\<lparr>filename = None, lyrics = Some [''x'']\<rparr>,
           \<lparr>filename = Some ''Unknown'', lyrics = None\<rparr>] (Some axis_encoder) 5)
     = [''Unknown'']"
  using missing_keys_tolerated
    [OF is_argsort_insertion,
      where s = "\<lparr>filename = Some ''a'', lyrics = None\<rparr>" and xs = "[]"
        and ys = "[\<lparr>filename = None, lyrics = Some [''x'']\<rparr>]" and sermon_text = "''q''"
        and songs = "[\<lparr>filename = None, lyrics = Some [''x'']\<rparr>,
                      \<lparr>filename = Some ''Unknown'', lyrics = None\<rparr>]"
        and m = axis_encoder and top_k = 5]
    missing_keys_tolerated
    [OF is_argsort_insertion,
      where s = "\<lparr>filename = None, lyrics = Some [''x'']\<rparr>" and xs = "[]"
        and ys = "[\<lparr>filename = Some ''Unknown'', lyrics = None\<rparr>]" and sermon_text = "''q''"
        and songs = "[\<lparr>filename = None, lyrics = Some [''x'']\<rparr>,
                      \<lparr>filename = Some ''Unknown'', lyrics = None\<rparr>]"
        and m = axis_encoder and top_k = 5]
  by (simp add: eval_defs)

section \<open>Requests\<close>

text \<open>
  C7. When the button is pressed with a query that is empty after trimming, \<open>main\<close>
  shows the empty-query warning and does not call \<open>get_recommendations_fast\<close>: the
  query is never encoded and the state is the one a run without any request leaves. With
  the corpus embeddings already cached, as after any earlier run, the provider is not
  called at all and the state is unchanged. (The button exists only once corpus and model
  are loaded.)
\<close>

theorem main_empty_query:
  assumes "songs_data \<noteq> []" and "strip sermon_text = []"
  shows "fst (main argsort songs_data (Some m) True sermon_text st) = Empty_query_warning
    \<and> snd (main argsort songs_data (Some m) True sermon_text st) =
        snd (main argsort songs_data (Some m) False sermon_text st)
    \<and> query_encodes (snd (main argsort songs_data (Some m) True sermon_text st))
        = query_encodes st
    \<and> (embeddings_cache st (fst (preprocess_songs songs_data)) \<noteq> None \<longrightarrow>
         snd (main argsort songs_data (Some m) True sermon_text st) = st)"
  using main_blank_query [OF assms] by simp

text \<open>The definitions unfolded to run the stateful operations on concrete inputs.\<close>

lemmas state_defs =
  main_def get_recommendations_fast_st_def get_song_embeddings_cached_def
  get_song_embeddings_run_def fresh_state_def

theorem main_empty_query_witness:
  "main insertion_argsort
     [\<lparr>filename = Some ''song1'', lyrics = Some [''grace'', ''amazing'']\<rparr>]
     (Some axis_encoder) True ''  ''
     (snd (main insertion_argsort
             [\<lparr>filename = Some ''song1'', lyrics = Some [''grace'', ''amazing'']\<rparr>]
             (Some axis_encoder) False [] fresh_state))
   = (Empty_query_warning,
      \<lparr>embeddings_cache = [[''grace amazing''] \<mapsto> (Some [[1, 0]], Some [''grace amazing''])],
       corpus_encodes = [[''grace amazing'']],
       query_encodes = []\<rparr>)"
  using main_empty_query
    [where argsort = insertion_argsort
       and songs_data = "[\<lparr>filename = Some ''song1'', lyrics = Some [''grace'', ''amazing'']\<rparr>]"
       and sermon_text = "''  ''" and m = axis_encoder
       and st = "snd (main insertion_argsort
                [\<lparr>filename = Some ''song1'', lyrics = Some [''grace'', ''amazing'']\<rparr>]
                (Some axis_encoder) False [] fresh_state)"]
  by (simp add: state_defs eval_defs)

text \<open>
  C9. From a fresh cache, whatever sequence of requests is served, no corpus batch is
  encoded twice. From any state, a recommendation call that follows one with a model on
  the same corpus finds the corpus embeddings in the cache: it adds no batch encoding.
\<close>

theorem corpus_encoded_at_most_once:
  "distinct (corpus_encodes (run_requests argsort rs fresh_state))
   \<and> corpus_encodes
       (snd (get_recommendations_fast_st argsort later_text songs later_model later_k
          (snd (get_recommendations_fast_st argsort first_text songs (Some m) first_k st)))) =
     corpus_encodes (snd (get_recommendations_fast_st argsort first_text songs (Some m) first_k st))"
  using run_requests_encodes_once [OF encodes_once_fresh, of argsort rs]
  by (simp add: encodes_once_def second_call_no_corpus_encode)

theorem corpus_encoded_at_most_once_witness:
  "corpus_encodes
     (run_requests insertion_argsort
        [(''grace'', [\<lparr>filename = Some ''song1'', lyrics = Some [''grace'', ''amazing'']\<rparr>],
          Some axis_encoder, 5),
         (''joy'', [\<lparr>filename = Some ''song1'', lyrics = Some [''grace'', ''amazing'']\<rparr>],
          Some axis_encoder, 5)]
        fresh_state)
   = [[''grace amazing'']]
   \<and> query_encodes
     (run_requests insertion_argsort
        [(''grace'', [\<lparr>filename = Some ''song1'', lyrics = Some [''grace'', ''amazing'']\<rparr>],
          Some axis_encoder, 5),
         (''joy'', [\<lparr>filename = Some ''song1'', lyrics = Some [''grace'', ''amazing'']\<rparr>],
          Some axis_encoder, 5)]
        fresh_state)
   = [''grace'', ''joy'']"
  using corpus_encoded_at_most_once
    [where argsort = insertion_argsort
       and rs = "[(''grace'',
                   [\<lparr>filename = Some ''song1'', lyrics = Some [''grace'', ''amazing'']\<rparr>],
                   Some axis_encoder, 5),
                  (''joy'',
                   [\<lparr>filename = Some ''song1'', lyrics = Some [''grace'', ''amazing'']\<rparr>],
                   Some axis_encoder, 5)]"
       and later_text = "''joy''"
       and songs = "[\<lparr>filename = Some ''song1'', lyrics = Some [''grace'', ''amazing'']\<rparr>]"
       and later_model = "Some axis_encoder" and later_k = 5 and first_text = "''grace''" and m = axis_encoder
       and first_k = 5 and st = fresh_state]
  by (simp add: state_defs eval_defs)

end
